theory Spec2Isabelle
  imports Main
begin

text \<open>
  A model of the dependency checker: the version and dependency extractors, the
  classifier, the aggregator and the notification with its upload as they are in
  \<^verbatim>\<open>src/check.ts\<close> (the extractors are repeated word for word in
  \<^verbatim>\<open>src/utils/pubspec-utils.ts\<close>), and the summary sheet of
  \<^verbatim>\<open>src/services/excel-report.service.ts\<close>. Record fields carry a prefix where two
  interfaces of the source use the same field name.
\<close>

section \<open>JavaScript values, strings and exceptions\<close>

text \<open>
  Strings are lists of characters. A JavaScript string is a sequence of UTF-16 code
  units; the model covers the code units below 256, which is where every character
  test of the program (ASCII letters, digits, punctuation, white space) lives.
  An exception is a value: a function that may throw returns \<open>js_error + 'a\<close>.
\<close>

datatype js_error = JsError string

definition and_then :: "js_error + 'a \<Rightarrow> ('a \<Rightarrow> js_error + 'b) \<Rightarrow> js_error + 'b" where
  "and_then m f = (case m of Inl e \<Rightarrow> Inl e | Inr v \<Rightarrow> f v)"

text \<open>\<^verbatim>\<open>try { body } catch { handler }\<close>: the handler runs exactly when the body throws.\<close>

definition try_catch :: "js_error + 'a \<Rightarrow> (js_error \<Rightarrow> js_error + 'a) \<Rightarrow> js_error + 'a" where
  "try_catch body handler = (case body of Inl e \<Rightarrow> handler e | Inr v \<Rightarrow> Inr v)"

text \<open>The regular-expression classes \<^verbatim>\<open>\s\<close>, \<^verbatim>\<open>\d\<close> and \<^verbatim>\<open>\w\<close>.\<close>

definition is_space :: "char \<Rightarrow> bool" where
  "is_space c = (of_char c \<in> {9, 10, 11, 12, 13, 32, 160 :: nat})"

definition is_digit :: "char \<Rightarrow> bool" where
  "is_digit c = (let n = of_char c :: nat in 48 \<le> n \<and> n \<le> 57)"

definition is_word :: "char \<Rightarrow> bool" where
  "is_word c = (let n = of_char c :: nat in
     (48 \<le> n \<and> n \<le> 57) \<or> (65 \<le> n \<and> n \<le> 90) \<or> (97 \<le> n \<and> n \<le> 122) \<or> n = 95)"

text \<open>\<^verbatim>\<open>String.prototype.trim\<close>, \<^verbatim>\<open>startsWith\<close>, \<^verbatim>\<open>includes\<close>, and \<^verbatim>\<open>replace\<close>
  with a string pattern (the first occurrence only).\<close>

definition trim :: "string \<Rightarrow> string" where
  "trim s = rev (dropWhile is_space (rev (dropWhile is_space s)))"

definition startsWith :: "string \<Rightarrow> string \<Rightarrow> bool" where
  "startsWith s p = (take (length p) s = p)"

fun str_includes :: "string \<Rightarrow> string \<Rightarrow> bool" where
  "str_includes [] p = (p = [])"
| "str_includes (c # cs) p = (startsWith (c # cs) p \<or> str_includes cs p)"

fun replace_first :: "string \<Rightarrow> string \<Rightarrow> string \<Rightarrow> string" where
  "replace_first [] p r = (if p = [] then r else [])"
| "replace_first (c # cs) p r =
     (if startsWith (c # cs) p then r @ drop (length p) (c # cs)
      else c # replace_first cs p r)"

text \<open>\<^verbatim>\<open>s.split('\n')\<close>: the pieces between line feeds; the empty string gives one
  empty piece.\<close>

fun split_lines :: "string \<Rightarrow> string list" where
  "split_lines [] = [[]]"
| "split_lines (c # cs) =
     (if c = CHR 0x0A then [] # split_lines cs
      else (case split_lines cs of
              [] \<Rightarrow> [[c]]
            | l # ls \<Rightarrow> (c # l) # ls))"

text \<open>\<^verbatim>\<open>s.split(/\s+/)\<close>: the pieces between maximal runs of white space.\<close>

function split_ws :: "string \<Rightarrow> string list" where
  "split_ws [] = [[]]"
| "split_ws (c # cs) =
     (if is_space c then [] # split_ws (dropWhile is_space cs)
      else (case split_ws cs of
              [] \<Rightarrow> [[c]]
            | t # ts \<Rightarrow> (c # t) # ts))"
  by pat_completeness auto
termination
  by (relation "measure length") (auto simp: length_dropWhile_le less_Suc_eq_le)

text \<open>\<^verbatim>\<open>s.match(/(\d+\.\d+\.\d+)/)\<close>: the leftmost match. Each \<^verbatim>\<open>\d+\<close> is greedy and is
  followed by something that is not a digit, so a match at a position takes the maximal
  run of digits each time; \<open>triple_at\<close> is the match anchored at the head of the string.\<close>

definition digits_dot :: "string \<Rightarrow> (string \<times> string) option" where
  "digits_dot s =
     (let d = takeWhile is_digit s; r = dropWhile is_digit s in
      if d = [] then None
      else (case r of
              [] \<Rightarrow> None
            | c # r' \<Rightarrow> if c = CHR ''.'' then Some (d, r') else None))"

definition triple_at :: "string \<Rightarrow> string option" where
  "triple_at s =
     (case digits_dot s of
        None \<Rightarrow> None
      | Some (a, r1) \<Rightarrow>
          (case digits_dot r1 of
             None \<Rightarrow> None
           | Some (b, r2) \<Rightarrow>
               (let c = takeWhile is_digit r2 in
                if c = [] then None else Some (a @ ''.'' @ b @ ''.'' @ c))))"

fun match_triple :: "string \<Rightarrow> string option" where
  "match_triple [] = None"
| "match_triple (c # cs) =
     (case triple_at (c # cs) of
        Some m \<Rightarrow> Some m
      | None \<Rightarrow> match_triple cs)"

text \<open>\<^verbatim>\<open>line.match(/^\s*\w+:/)\<close>, as a truth value: white space, then a non-empty word,
  then a colon, from the start of the string.\<close>

definition match_key :: "string \<Rightarrow> bool" where
  "match_key line =
     (let r = dropWhile is_space line; w = takeWhile is_word r in
      w \<noteq> [] \<and> (case dropWhile is_word r of [] \<Rightarrow> False | c # _ \<Rightarrow> c = CHR '':''))"

section \<open>Version Extractor: \<^verbatim>\<open>getFlutterVersionFromPubspec\<close>\<close>

text \<open>
  The loop over the lines, with the flag \<^verbatim>\<open>inEnvironment\<close> as an argument. The three
  statements of the body are kept in the source's order: the header test with its
  \<^verbatim>\<open>continue\<close>, the \<^verbatim>\<open>flutter:\<close> line with its \<^verbatim>\<open>return\<close>, and the key test with its
  \<^verbatim>\<open>break\<close>.
\<close>

fun scan_lines :: "bool \<Rightarrow> string list \<Rightarrow> string option" where
  "scan_lines inEnvironment [] = None"
| "scan_lines inEnvironment (line # rest) =
     (let trimmed = trim line in
      if trimmed = ''environment:'' then scan_lines True rest
      else
        (case (if inEnvironment \<and> startsWith trimmed ''flutter:''
               then match_triple (trim (replace_first trimmed ''flutter:'' []))
               else None) of
           Some v \<Rightarrow> Some v
         | None \<Rightarrow>
             if inEnvironment \<and> match_key line \<and> \<not> str_includes line ''flutter:''
             then None
             else scan_lines inEnvironment rest))"

definition getFlutterVersionFromPubspec :: "string \<Rightarrow> string option" where
  "getFlutterVersionFromPubspec pubspecContent = scan_lines False (split_lines pubspecContent)"

section \<open>Divergence Classifier: \<^verbatim>\<open>isUpdateAvailable\<close> and \<^verbatim>\<open>getVersionUpdateType\<close>\<close>

text \<open>
  The npm package \<^verbatim>\<open>semver\<close> is a dependency of the repository, not part of it: the
  operations the program calls are taken as a parameter, a record of functions.
  \<^verbatim>\<open>semver.valid\<close> answers the normalised version or \<^verbatim>\<open>null\<close> and does not throw;
  \<^verbatim>\<open>gt\<close>, \<^verbatim>\<open>satisfies\<close>, \<^verbatim>\<open>major\<close>, \<^verbatim>\<open>minor\<close> and \<^verbatim>\<open>patch\<close> may throw.
\<close>

record semver =
  semver_valid :: "string \<Rightarrow> string option"
  semver_gt :: "string \<Rightarrow> string \<Rightarrow> js_error + bool"
  semver_satisfies :: "string \<Rightarrow> string \<Rightarrow> js_error + bool"
  semver_major :: "string \<Rightarrow> js_error + nat"
  semver_minor :: "string \<Rightarrow> js_error + nat"
  semver_patch :: "string \<Rightarrow> js_error + nat"

text \<open>Truthiness of a value that is a string or \<^verbatim>\<open>null\<close>: the empty string is falsy.\<close>

definition truthy_str :: "string option \<Rightarrow> bool" where
  "truthy_str v = (case v of None \<Rightarrow> False | Some s \<Rightarrow> s \<noteq> [])"

text \<open>\<^verbatim>\<open>currentVersion.replace(/^[\^~>=<\s]+/, '').split(/\s+/)[0]\<close>, the local
  \<^verbatim>\<open>baseVersion\<close> of both functions. The split never gives an empty array
  (\<open>split_ws_not_Nil\<close> below), so element 0 is the head.\<close>

definition is_operator_char :: "char \<Rightarrow> bool" where
  "is_operator_char c = (c \<in> set ''^~>=<'' \<or> is_space c)"

definition strip_operators :: "string \<Rightarrow> string" where
  "strip_operators s = dropWhile is_operator_char s"

definition baseVersion :: "string \<Rightarrow> string" where
  "baseVersion currentVersion = hd (split_ws (strip_operators currentVersion))"

definition isUpdateAvailable :: "semver \<Rightarrow> string \<Rightarrow> string \<Rightarrow> js_error + bool" where
  "isUpdateAvailable sv currentVersion latestVersion =
     try_catch
       (if truthy_str (semver_valid sv (baseVersion currentVersion))
           \<and> truthy_str (semver_valid sv latestVersion)
        then and_then (semver_gt sv latestVersion (baseVersion currentVersion)) (\<lambda>g.
               if g
               then and_then (semver_satisfies sv latestVersion currentVersion) (\<lambda>s. Inr (\<not> s))
               else Inr False)
        else Inr False)
       (\<lambda>e. Inr False)"

text \<open>The result \<^verbatim>\<open>'major' | 'minor' | 'patch' | null\<close> is an \<open>update_type option\<close>.\<close>

datatype update_type = Major | Minor | Patch

definition getVersionUpdateType ::
  "semver \<Rightarrow> string \<Rightarrow> string \<Rightarrow> js_error + update_type option" where
  "getVersionUpdateType sv currentVersion latestVersion =
     try_catch
       (case (semver_valid sv (baseVersion currentVersion), semver_valid sv latestVersion) of
          (Some current, Some latest) \<Rightarrow>
            if current = [] \<or> latest = [] then Inr None
            else
              and_then (semver_major sv latest) (\<lambda>ml.
              and_then (semver_major sv current) (\<lambda>mc.
                if ml > mc then Inr (Some Major)
                else
                  and_then (semver_minor sv latest) (\<lambda>nl.
                  and_then (semver_minor sv current) (\<lambda>nc.
                    if nl > nc then Inr (Some Minor)
                    else
                      and_then (semver_patch sv latest) (\<lambda>pl.
                      and_then (semver_patch sv current) (\<lambda>pc.
                        if pl > pc then Inr (Some Patch)
                        else Inr None))))))
        | _ \<Rightarrow> Inr None)
       (\<lambda>e. Inr None)"

text \<open>What it means for a string to parse as a semantic version with components
  \<open>(major, minor, patch)\<close>: \<^verbatim>\<open>valid\<close> accepts it and the three readers return on the
  normalised version.\<close>

definition components :: "semver \<Rightarrow> string \<Rightarrow> (nat \<times> nat \<times> nat) option" where
  "components sv v =
     (case semver_valid sv v of
        None \<Rightarrow> None
      | Some n \<Rightarrow>
          if n = [] then None
          else (case (semver_major sv n, semver_minor sv n, semver_patch sv n) of
                  (Inr a, Inr b, Inr c) \<Rightarrow> Some (a, b, c)
                | _ \<Rightarrow> None))"

subsection \<open>A small library to run the definitions\<close>

text \<open>
  \<open>plain_semver\<close> stands in for the package where a concrete library is needed to
  evaluate the functions above. It knows the versions \<^verbatim>\<open>MAJOR.MINOR.PATCH\<close> (decimal,
  no leading zeros) and, as ranges, an exact version and a caret range \<^verbatim>\<open>^M.m.p\<close> with
  \<open>M > 0\<close>; every other string is an invalid version and a range nothing satisfies.
  No theorem about the program depends on it.
\<close>

definition digit_val :: "char \<Rightarrow> nat" where
  "digit_val c = of_char c - 48"

definition number_of :: "string \<Rightarrow> nat option" where
  "number_of s =
     (if s = [] \<or> \<not> list_all is_digit s \<or> (length s > 1 \<and> hd s = CHR ''0'') then None
      else Some (foldl (\<lambda>n c. 10 * n + digit_val c) 0 s))"

definition parse_plain :: "string \<Rightarrow> (nat \<times> nat \<times> nat) option" where
  "parse_plain s =
     (case digits_dot s of
        None \<Rightarrow> None
      | Some (a, r1) \<Rightarrow>
          (case digits_dot r1 of
             None \<Rightarrow> None
           | Some (b, c) \<Rightarrow>
               (case (number_of a, number_of b, number_of c) of
                  (Some x, Some y, Some z) \<Rightarrow> Some (x, y, z)
                | _ \<Rightarrow> None)))"

definition triple_less :: "nat \<times> nat \<times> nat \<Rightarrow> nat \<times> nat \<times> nat \<Rightarrow> bool" where
  "triple_less v w =
     (case (v, w) of
        ((a, b, c), (x, y, z)) \<Rightarrow> a < x \<or> (a = x \<and> (b < y \<or> (b = y \<and> c < z))))"

definition plain_component ::
  "(nat \<times> nat \<times> nat \<Rightarrow> nat) \<Rightarrow> string \<Rightarrow> js_error + nat" where
  "plain_component sel s =
     (case parse_plain s of
        None \<Rightarrow> Inl (JsError ''Invalid Version'')
      | Some v \<Rightarrow> Inr (sel v))"

definition plain_gt :: "string \<Rightarrow> string \<Rightarrow> js_error + bool" where
  "plain_gt a b =
     (case (parse_plain a, parse_plain b) of
        (Some v, Some w) \<Rightarrow> Inr (triple_less w v)
      | _ \<Rightarrow> Inl (JsError ''Invalid Version''))"

definition plain_satisfies :: "string \<Rightarrow> string \<Rightarrow> js_error + bool" where
  "plain_satisfies version rng =
     (case parse_plain version of
        None \<Rightarrow> Inr False
      | Some v \<Rightarrow>
          (case rng of
             [] \<Rightarrow> Inr False
           | c # r \<Rightarrow>
               if c = CHR ''^''
               then (case parse_plain r of
                       None \<Rightarrow> Inr False
                     | Some (a, b, p) \<Rightarrow>
                         Inr (a > 0 \<and> \<not> triple_less v (a, b, p) \<and> triple_less v (Suc a, 0, 0)))
               else (case parse_plain rng of
                       None \<Rightarrow> Inr False
                     | Some w \<Rightarrow> Inr (v = w))))"

definition plain_semver :: semver where
  "plain_semver =
     \<lparr> semver_valid = (\<lambda>s. if parse_plain s = None then None else Some s),
       semver_gt = plain_gt,
       semver_satisfies = plain_satisfies,
       semver_major = plain_component (\<lambda>(a, b, c). a),
       semver_minor = plain_component (\<lambda>(a, b, c). b),
       semver_patch = plain_component (\<lambda>(a, b, c). c) \<rparr>"

section \<open>Dependency Extractor: \<^verbatim>\<open>extractDependencies\<close>\<close>

text \<open>
  The parsed manifest has the type \<^verbatim>\<open>any\<close>: whatever \<^verbatim>\<open>yaml.parse\<close> returned. An object
  is the list of its own entries in the order \<^verbatim>\<open>Object.entries\<close> enumerates them; a
  JavaScript object has each key once (\<open>wf_object\<close>). \<open>JNum n\<close> stands for a number
  that is not \<^verbatim>\<open>NaN\<close>; the program only ever tests a number for truthiness, so the
  fraction of a number plays no part.
\<close>

datatype jsval =
    JUndefined
  | JNull
  | JBool bool
  | JNum int
  | JNaN
  | JStr string
  | JArr "jsval list"
  | JObj "(string \<times> jsval) list"

fun truthy :: "jsval \<Rightarrow> bool" where
  "truthy JUndefined = False"
| "truthy JNull = False"
| "truthy (JBool b) = b"
| "truthy (JNum n) = (n \<noteq> 0)"
| "truthy JNaN = False"
| "truthy (JStr s) = (s \<noteq> [])"
| "truthy (JArr xs) = True"
| "truthy (JObj kvs) = True"

text \<open>Reading the property \<open>k\<close> of a value that is neither \<^verbatim>\<open>null\<close> nor \<^verbatim>\<open>undefined\<close>
  (every read of the program is behind a truthiness test), for the keys the program
  reads (\<^verbatim>\<open>dependencies\<close>, \<^verbatim>\<open>dev_dependencies\<close>, \<^verbatim>\<open>version\<close>), which no primitive,
  array or prototype defines.\<close>

fun get_prop :: "jsval \<Rightarrow> string \<Rightarrow> jsval" where
  "get_prop (JObj kvs) k = (case map_of kvs k of None \<Rightarrow> JUndefined | Some v \<Rightarrow> v)"
| "get_prop v k = JUndefined"

text \<open>Decimal notation of an array index, the key under which \<^verbatim>\<open>Object.entries\<close> lists
  the element of an array or the character of a string.\<close>

fun show_nat :: "nat \<Rightarrow> string" where
  "show_nat n =
     (if n < 10 then [char_of (48 + n)]
      else show_nat (n div 10) @ [char_of (48 + n mod 10)])"

definition indexed :: "'a list \<Rightarrow> (string \<times> 'a) list" where
  "indexed xs = zip (map show_nat [0..<length xs]) xs"

fun object_entries :: "jsval \<Rightarrow> (string \<times> jsval) list" where
  "object_entries (JObj kvs) = kvs"
| "object_entries (JArr xs) = indexed xs"
| "object_entries (JStr s) = indexed (map (\<lambda>c. JStr [c]) s)"
| "object_entries v = []"

definition wf_object :: "jsval \<Rightarrow> bool" where
  "wf_object v = (case v of JObj kvs \<Rightarrow> distinct (map fst kvs) | _ \<Rightarrow> True)"

text \<open>The element type \<^verbatim>\<open>{ name: string; version: string }\<close>. The version is declared a
  string, but \<^verbatim>\<open>spec.version || 'any'\<close> is whatever truthy value the manifest holds.\<close>

record dependency =
  dep_name :: string
  dep_version :: jsval

definition or_any :: "jsval \<Rightarrow> jsval" where
  "or_any v = (if truthy v then v else JStr ''any'')"

text \<open>The callback of \<^verbatim>\<open>forEach\<close>, the same in both loops: it returns early on the two
  names of the runtime and pushes one entry otherwise.\<close>

definition push_dependency :: "dependency list \<Rightarrow> string \<times> jsval \<Rightarrow> dependency list" where
  "push_dependency deps entry =
     (case entry of
        (name, spec) \<Rightarrow>
          if name = ''flutter'' \<or> name = ''flutter_test'' then deps
          else
            (let version =
               (case spec of
                  JStr s \<Rightarrow> JStr s
                | JObj kvs \<Rightarrow> or_any (get_prop spec ''version'')
                | JArr xs \<Rightarrow> or_any (get_prop spec ''version'')
                | _ \<Rightarrow> JStr ''any'')
             in deps @ [\<lparr> dep_name = name, dep_version = or_any version \<rparr>]))"

definition extractDependencies :: "jsval \<Rightarrow> bool \<Rightarrow> dependency list" where
  "extractDependencies pubspec includeDevDeps =
     (if \<not> truthy pubspec then []
      else
        (let deps0 = [];
             deps1 =
               (if truthy (get_prop pubspec ''dependencies'')
                then foldl push_dependency deps0 (object_entries (get_prop pubspec ''dependencies''))
                else deps0);
             deps2 =
               (if includeDevDeps \<and> truthy (get_prop pubspec ''dev_dependencies'')
                then foldl push_dependency deps1
                       (object_entries (get_prop pubspec ''dev_dependencies''))
                else deps1)
         in deps2))"

text \<open>The names one dependency map contributes: its keys, without the runtime's two.\<close>

definition declared_names :: "jsval \<Rightarrow> string \<Rightarrow> string list" where
  "declared_names pubspec section_key =
     (if truthy pubspec \<and> truthy (get_prop pubspec section_key)
      then filter (\<lambda>n. n \<noteq> ''flutter'' \<and> n \<noteq> ''flutter_test'')
             (map fst (object_entries (get_prop pubspec section_key)))
      else [])"

section \<open>Check Aggregator: \<^verbatim>\<open>checkRepository\<close>\<close>

record repository =
  repo_name :: string
  repo_description :: "string option"
  repo_url :: string

record flutter_version =
  fv_current :: string
  fv_latest :: string
  fv_updateAvailable :: bool

record package_info =
  pkg_name :: string
  pkg_current :: jsval
  pkg_latest :: string
  pkg_updateAvailable :: bool

record check_result =
  cr_repository :: repository
  cr_flutter :: flutter_version
  cr_packages :: "package_info list"
  cr_error :: "string option"

text \<open>
  What the aggregator calls and does not compute: the manifest fetch
  (\<^verbatim>\<open>getPubspecFromGitHub\<close>, a network read), \<^verbatim>\<open>yaml.parse\<close>, the registry resolver
  (\<^verbatim>\<open>getLatestPackageVersion\<close>, a network read) and the \<^verbatim>\<open>semver\<close> package. Each is a
  function that returns or throws.
\<close>

record collaborators =
  getPubspecFromGitHub :: "string \<Rightarrow> string option \<Rightarrow> js_error + string"
  yaml_parse :: "string \<Rightarrow> js_error + jsval"
  getLatestPackageVersion :: "string \<Rightarrow> js_error + string"
  semver_lib :: semver

text \<open>\<^verbatim>\<open>isUpdateAvailable(dep.version, latest)\<close> on a version that is not a string: the
  value has no method \<^verbatim>\<open>replace\<close>, the call throws a \<^verbatim>\<open>TypeError\<close> inside the function's
  \<^verbatim>\<open>try\<close>, and its \<^verbatim>\<open>catch\<close> returns \<^verbatim>\<open>false\<close>.\<close>

definition isUpdateAvailable_any :: "semver \<Rightarrow> jsval \<Rightarrow> string \<Rightarrow> js_error + bool" where
  "isUpdateAvailable_any sv currentVersion latestVersion =
     (case currentVersion of
        JStr s \<Rightarrow> isUpdateAvailable sv s latestVersion
      | _ \<Rightarrow> Inr False)"

definition skipped :: "dependency \<Rightarrow> bool" where
  "skipped dep =
     (\<not> truthy (dep_version dep) \<or> dep_version dep = JStr ''any''
      \<or> (case dep_version dep of
            JStr s \<Rightarrow> str_includes s ''git:'' \<or> str_includes s ''path:''
          | _ \<Rightarrow> False))"

text \<open>
  Building a string from a value, as a template literal does. A primitive always
  converts. An object converts through its method \<^verbatim>\<open>toString\<close>: an object of the manifest
  that has a key \<^verbatim>\<open>toString\<close> of its own shadows the method with a value that cannot be
  called, \<^verbatim>\<open>valueOf\<close> gives no primitive either, and the conversion throws a
  \<^verbatim>\<open>TypeError\<close>. An array converts its elements and joins them. Only whether the
  conversion throws is modelled, not the text.
\<close>

fun stringifies :: "jsval \<Rightarrow> bool" where
  "stringifies (JObj kvs) = (map_of kvs ''toString'' = None)"
| "stringifies (JArr xs) = (\<forall>x \<in> set xs. stringifies x)"
| "stringifies v = True"

definition string_conversion :: "jsval \<Rightarrow> js_error + unit" where
  "string_conversion v =
     (if stringifies v then Inr ()
      else Inl (JsError ''Cannot convert object to primitive value''))"

text \<open>
  The inner \<^verbatim>\<open>try\<close>/\<^verbatim>\<open>catch\<close> of the loop, for one dependency that is not skipped. The
  \<^verbatim>\<open>try\<close> builds a log line from \<^verbatim>\<open>dep.version\<close>, calls the registry, classifies, builds
  a second log line when an update is available, and gives the entry to push. The
  \<^verbatim>\<open>catch\<close> builds its own log line from \<^verbatim>\<open>dep.version\<close> before it gives the \<^verbatim>\<open>N/A\<close>
  entry: when that conversion throws, the error leaves the \<^verbatim>\<open>catch\<close>.
\<close>

definition check_dependency :: "collaborators \<Rightarrow> dependency \<Rightarrow> js_error + package_info" where
  "check_dependency co dep =
     try_catch
       (and_then (string_conversion (dep_version dep)) (\<lambda>logged.
        and_then (getLatestPackageVersion co (dep_name dep)) (\<lambda>latest.
        and_then (isUpdateAvailable_any (semver_lib co) (dep_version dep) latest)
          (\<lambda>updateAvailable.
        and_then (if updateAvailable then string_conversion (dep_version dep) else Inr ())
          (\<lambda>logged.
             Inr \<lparr> pkg_name = dep_name dep, pkg_current = dep_version dep,
                   pkg_latest = latest, pkg_updateAvailable = updateAvailable \<rparr>)))))
       (\<lambda>error.
          and_then (string_conversion (dep_version dep)) (\<lambda>logged.
            Inr \<lparr> pkg_name = dep_name dep, pkg_current = dep_version dep,
                  pkg_latest = ''N/A'', pkg_updateAvailable = False \<rparr>))"

text \<open>The loop \<^verbatim>\<open>for (const dep of dependencies)\<close>, with the array \<^verbatim>\<open>packages\<close> as
  an accumulator. An error that leaves the body leaves the loop. (The log lines of the
  two skipping branches convert a version that is falsy, \<^verbatim>\<open>'any'\<close> or a string, which
  never throws.)\<close>

fun check_dependencies ::
  "collaborators \<Rightarrow> dependency list \<Rightarrow> package_info list \<Rightarrow> js_error + package_info list"
  where
  "check_dependencies co [] packages = Inr packages"
| "check_dependencies co (dep # rest) packages =
     (if skipped dep then check_dependencies co rest packages
      else and_then (check_dependency co dep) (\<lambda>entry.
             check_dependencies co rest (packages @ [entry])))"

definition message_of :: "js_error \<Rightarrow> string" where
  "message_of e = (case e of JsError m \<Rightarrow> m)"

definition checkRepository ::
  "collaborators \<Rightarrow> repository \<Rightarrow> string \<Rightarrow> string option \<Rightarrow> check_result" where
  "checkRepository co repository latestFlutter githubToken =
     (case and_then (getPubspecFromGitHub co (repo_url repository) githubToken)
             (\<lambda>pubspecContent.
           and_then (yaml_parse co pubspecContent) (\<lambda>pubspec.
             if \<not> truthy pubspec
             then Inl (JsError ''Failed to parse pubspec.yaml: result is null'')
             else
               (let currentFlutter =
                      (case getFlutterVersionFromPubspec pubspecContent of
                         None \<Rightarrow> latestFlutter
                       | Some pin \<Rightarrow> if pin = [] then latestFlutter else pin);
                    flutter =
                      \<lparr> fv_current = currentFlutter, fv_latest = latestFlutter,
                        fv_updateAvailable = (currentFlutter \<noteq> latestFlutter) \<rparr>;
                    dependencies = extractDependencies pubspec True
                in and_then (check_dependencies co dependencies []) (\<lambda>packages.
                     Inr \<lparr> cr_repository = repository, cr_flutter = flutter,
                           cr_packages = packages, cr_error = None \<rparr>)))) of
        Inr result \<Rightarrow> result
      | Inl error \<Rightarrow>
          \<lparr> cr_repository = repository,
            cr_flutter =
              \<lparr> fv_current = ''unknown'', fv_latest = latestFlutter,
                fv_updateAvailable = False \<rparr>,
            cr_packages = [],
            cr_error = Some (message_of error) \<rparr>)"

text \<open>The result the \<^verbatim>\<open>catch\<close> of \<^verbatim>\<open>checkRepository\<close> builds from an error message.\<close>

definition failed_result :: "repository \<Rightarrow> string \<Rightarrow> string \<Rightarrow> check_result" where
  "failed_result repository latestFlutter msg =
     \<lparr> cr_repository = repository,
       cr_flutter = \<lparr> fv_current = ''unknown'', fv_latest = latestFlutter,
                      fv_updateAvailable = False \<rparr>,
       cr_packages = [],
       cr_error = Some msg \<rparr>"

text \<open>The entry the specification gives for one dependency: \<^verbatim>\<open>N/A\<close> and no update when
  the resolution fails, the resolved version and the classifier's flag otherwise.\<close>

definition resolved_entry :: "collaborators \<Rightarrow> dependency \<Rightarrow> package_info" where
  "resolved_entry co dep =
     (case getLatestPackageVersion co (dep_name dep) of
        Inl e \<Rightarrow>
          \<lparr> pkg_name = dep_name dep, pkg_current = dep_version dep,
            pkg_latest = ''N/A'', pkg_updateAvailable = False \<rparr>
      | Inr latest \<Rightarrow>
          \<lparr> pkg_name = dep_name dep, pkg_current = dep_version dep,
            pkg_latest = latest,
            pkg_updateAvailable =
              (isUpdateAvailable_any (semver_lib co) (dep_version dep) latest = Inr True) \<rparr>)"


text \<open>The dependencies of a parsed manifest that reach the inner \<^verbatim>\<open>try\<close>.\<close>

definition resolved_dependencies :: "jsval \<Rightarrow> dependency list" where
  "resolved_dependencies pubspec = filter (\<lambda>d. \<not> skipped d) (extractDependencies pubspec True)"

section \<open>Report Builder: the summary sheet\<close>

text \<open>
  \<^verbatim>\<open>createSummarySheet\<close> adds one row per result. The three texts a status cell can
  hold are Japanese words, named here by what they say; a cell of the row holds a text,
  one of these words, a number or the empty string. Fonts and fills are not modelled.
\<close>

datatype status_label = StatusError | StatusNeedsUpdate | StatusUpToDate

datatype cell = CellText string | CellLabel status_label | CellNumber nat | CellEmpty

record summary_row =
  sum_repository :: string
  sum_flutterCurrent :: cell
  sum_flutterLatest :: cell
  sum_flutterUpdate :: cell
  sum_outdatedCount :: cell
  sum_totalCount :: cell
  sum_status :: status_label

definition summary_row :: "check_result \<Rightarrow> summary_row" where
  "summary_row result =
     (if truthy_str (cr_error result)
      then \<lparr> sum_repository = repo_name (cr_repository result),
             sum_flutterCurrent = CellLabel StatusError,
             sum_flutterLatest = CellEmpty,
             sum_flutterUpdate = CellEmpty,
             sum_outdatedCount = CellEmpty,
             sum_totalCount = CellEmpty,
             sum_status = StatusError \<rparr>
      else
        (let outdatedCount = length (filter pkg_updateAvailable (cr_packages result));
             totalCount = length (cr_packages result);
             hasFlutterUpdate = fv_updateAvailable (cr_flutter result)
         in \<lparr> sum_repository = repo_name (cr_repository result),
               sum_flutterCurrent = CellText (fv_current (cr_flutter result)),
               sum_flutterLatest = CellText (fv_latest (cr_flutter result)),
               sum_flutterUpdate =
                 CellLabel (if hasFlutterUpdate then StatusNeedsUpdate else StatusUpToDate),
               sum_outdatedCount = CellNumber outdatedCount,
               sum_totalCount = CellNumber totalCount,
               sum_status =
                 (if hasFlutterUpdate \<or> outdatedCount > 0
                  then StatusNeedsUpdate else StatusUpToDate) \<rparr>))"

definition createSummarySheet :: "check_result list \<Rightarrow> summary_row list" where
  "createSummarySheet results = foldl (\<lambda>rows result. rows @ [summary_row result]) [] results"

section \<open>Upload Protocol Client: \<^verbatim>\<open>sendSlackNotification\<close>\<close>

text \<open>
  The notification target is a collaborator: each of its calls returns a response or
  throws. The function is modelled by the calls it makes, in order, and by whether it
  returns or throws; of the console only the error line of the \<^verbatim>\<open>catch\<close> is kept, the
  progress lines of \<^verbatim>\<open>console.log\<close> are left out. The posted message is represented by its channel and by the flag
  \<^verbatim>\<open>hasUpdates\<close> that selects its text; the blocks rendered from the results are not
  modelled. The time stamp of the file name comes from the clock and is an argument.
\<close>

record message =
  msg_channel :: string
  msg_hasUpdates :: bool

record upload_url_response =
  uu_ok :: bool
  uu_upload_url :: "string option"
  uu_file_id :: "string option"
  uu_error :: "string option"

record complete_options =
  cu_file_id :: string
  cu_channel_id :: string
  cu_thread_ts :: "string option"

record complete_response =
  fin_ok :: bool
  fin_error :: "string option"

record slack =
  chat_postMessage :: "message \<Rightarrow> js_error + string option"
  generateExcelFile :: "check_result list \<Rightarrow> js_error + nat"
  files_getUploadURLExternal :: "string \<Rightarrow> nat \<Rightarrow> js_error + upload_url_response"
  axios_put :: "string \<Rightarrow> nat \<Rightarrow> js_error + unit"
  files_completeUploadExternal :: "complete_options \<Rightarrow> js_error + complete_response"

datatype call =
    PostMessage message
  | GetUploadURLExternal string nat
  | Put string nat
  | CompleteUploadExternal complete_options
  | ConsoleError string

text \<open>\<^verbatim>\<open>a || b\<close> on a string that may be missing.\<close>

definition or_else :: "string option \<Rightarrow> string \<Rightarrow> string" where
  "or_else a b = (case a of None \<Rightarrow> b | Some s \<Rightarrow> if s = [] then b else s)"

definition hasUpdates :: "check_result list \<Rightarrow> bool" where
  "hasUpdates results =
     list_ex (\<lambda>r. \<not> truthy_str (cr_error r)
                 \<and> (fv_updateAvailable (cr_flutter r) \<or> list_ex pkg_updateAvailable (cr_packages r)))
       results"

text \<open>The body of the \<^verbatim>\<open>try\<close>: the spreadsheet, then the three phases. The result
  is the list of calls made and the outcome of the block.\<close>

definition upload_filename :: "string \<Rightarrow> string" where
  "upload_filename timestamp = ''flutter-dependency-check-'' @ timestamp @ ''.xlsx''"

definition upload ::
  "slack \<Rightarrow> string \<Rightarrow> string option \<Rightarrow> check_result list \<Rightarrow> string
     \<Rightarrow> call list \<times> (js_error + unit)" where
  "upload api channel ts results timestamp =
     (case generateExcelFile api results of
        Inl e \<Rightarrow> ([], Inl e)
      | Inr len \<Rightarrow>
          (let filename = upload_filename timestamp;
               c1 = [GetUploadURLExternal filename len]
           in case files_getUploadURLExternal api filename len of
                Inl e \<Rightarrow> (c1, Inl e)
              | Inr r \<Rightarrow>
                  if \<not> uu_ok r \<or> \<not> truthy_str (uu_upload_url r) \<or> \<not> truthy_str (uu_file_id r)
                  then (c1, Inl (JsError (or_else (uu_error r) ''Failed to get upload URL'')))
                  else
                    (let uploadUrl = or_else (uu_upload_url r) [];
                         fileId = or_else (uu_file_id r) [];
                         c2 = c1 @ [Put uploadUrl len]
                     in case axios_put api uploadUrl len of
                          Inl e \<Rightarrow> (c2, Inl e)
                        | Inr u \<Rightarrow>
                            (let completeUploadOptions =
                                   \<lparr> cu_file_id = fileId, cu_channel_id = channel,
                                     cu_thread_ts = (if truthy_str ts then ts else None) \<rparr>;
                                 c3 = c2 @ [CompleteUploadExternal completeUploadOptions]
                             in case files_completeUploadExternal api completeUploadOptions of
                                  Inl e \<Rightarrow> (c3, Inl e)
                                | Inr done \<Rightarrow>
                                    if \<not> fin_ok done
                                    then (c3, Inl (JsError (or_else (fin_error done)
                                                     ''Failed to complete upload'')))
                                    else (c3, Inr ())))))"

text \<open>
  The blocks of the message are built before it is posted, outside any \<^verbatim>\<open>try\<close>. The
  values of unknown type that are converted to strings there are the current versions
  of the first five outdated packages of each result without error; a conversion that
  throws ends the function before anything is posted.
\<close>

definition block_conversions :: "check_result \<Rightarrow> jsval list" where
  "block_conversions result =
     (if truthy_str (cr_error result) then []
      else map pkg_current (take 5 (filter pkg_updateAvailable (cr_packages result))))"

fun convert_all :: "jsval list \<Rightarrow> js_error + unit" where
  "convert_all [] = Inr ()"
| "convert_all (v # vs) = and_then (string_conversion v) (\<lambda>converted. convert_all vs)"

definition compose_blocks :: "check_result list \<Rightarrow> js_error + unit" where
  "compose_blocks results = convert_all (concat (map block_conversions results))"

definition sendSlackNotification ::
  "slack \<Rightarrow> string \<Rightarrow> check_result list \<Rightarrow> string \<Rightarrow> call list \<times> (js_error + unit)" where
  "sendSlackNotification api channel results timestamp =
     (case compose_blocks results of
        Inl e \<Rightarrow> ([], Inl e)
      | Inr blocks \<Rightarrow>
          (let msg = \<lparr> msg_channel = channel, msg_hasUpdates = hasUpdates results \<rparr>
           in case chat_postMessage api msg of
                Inl e \<Rightarrow> ([PostMessage msg], Inl e)
              | Inr ts \<Rightarrow>
                  (case upload api channel ts results timestamp of
                     (calls, Inr u) \<Rightarrow> (PostMessage msg # calls, Inr ())
                   | (calls, Inl e) \<Rightarrow>
                       (PostMessage msg # calls @ [ConsoleError (message_of e)], Inr ()))))"

section \<open>Concrete inputs\<close>

text \<open>Two manifests with the same environment block, the keys in either order.\<close>

definition manifest_sdk_first :: string where
  "manifest_sdk_first =
     ''environment:'' @ [CHR 0x0A] @ ''  sdk: ^3.0.0'' @ [CHR 0x0A] @ ''  flutter: 3.10.0''"

definition manifest_flutter_first :: string where
  "manifest_flutter_first =
     ''environment:'' @ [CHR 0x0A] @ ''  flutter: 3.10.0'' @ [CHR 0x0A] @ ''  sdk: ^3.0.0''"

text \<open>A parsed manifest that names \<^verbatim>\<open>http\<close> in both dependency maps, and one whose two
  maps share no name.\<close>

definition pubspec_http_twice :: jsval where
  "pubspec_http_twice =
     JObj [(''dependencies'', JObj [(''http'', JStr ''^1.0.0'')]),
           (''dev_dependencies'', JObj [(''http'', JStr ''^1.0.0'')])]"

definition pubspec_two_maps :: jsval where
  "pubspec_two_maps =
     JObj [(''dependencies'',
              JObj [(''flutter'', JObj [(''sdk'', JStr ''flutter'')]),
                    (''http'', JStr ''^1.0.0'')]),
           (''dev_dependencies'',
              JObj [(''flutter_test'', JObj [(''sdk'', JStr ''flutter'')]),
                    (''lints'', JStr ''^3.0.0'')])]"

text \<open>A repository, a manifest that pins the runtime and declares two packages, the
  object the manifest parses to, and a world in which the fetch returns the given manifest,
  the parser gives the given outcome on it, and the registry knows \<^verbatim>\<open>http\<close> only.\<close>

definition demo_repo :: repository where
  "demo_repo = \<lparr> repo_name = ''app'', repo_description = None,
                 repo_url = ''https://github.com/org/app'' \<rparr>"

definition demo_manifest :: string where
  "demo_manifest =
     ''environment:'' @ [CHR 0x0A] @ ''  flutter: 3.22.0'' @ [CHR 0x0A]
     @ ''dependencies:'' @ [CHR 0x0A] @ ''  gone: ^2.0.0'' @ [CHR 0x0A] @ ''  http: ^1.0.0''"

definition demo_pubspec :: jsval where
  "demo_pubspec =
     JObj [(''environment'', JObj [(''flutter'', JStr ''3.22.0'')]),
           (''dependencies'', JObj [(''gone'', JStr ''^2.0.0''), (''http'', JStr ''^1.0.0'')])]"

definition world :: "string \<Rightarrow> js_error + jsval \<Rightarrow> collaborators" where
  "world manifest parsed =
     \<lparr> getPubspecFromGitHub = (\<lambda>url token. Inr manifest),
       yaml_parse =
         (\<lambda>content. if content = manifest then parsed
                    else Inl (JsError ''not the manifest of this world'')),
       getLatestPackageVersion =
         (\<lambda>name. if name = ''http'' then Inr ''2.0.0''
                 else Inl (JsError ''No response from server'')),
       semver_lib = plain_semver \<rparr>"

text \<open>A manifest without an environment block, and the object it parses to.\<close>

definition plain_manifest :: string where
  "plain_manifest = ''name: app''"

definition plain_pubspec :: jsval where
  "plain_pubspec = JObj [(''name'', JStr ''app'')]"

text \<open>Two results: the one \<^verbatim>\<open>checkRepository\<close> builds when the error it catches has an
  empty message, and a successful one with an outdated package.\<close>

definition silent_failure :: check_result where
  "silent_failure = failed_result demo_repo ''3.19.0'' []"

definition outdated_result :: check_result where
  "outdated_result =
     \<lparr> cr_repository = demo_repo,
       cr_flutter = \<lparr> fv_current = ''3.19.0'', fv_latest = ''3.19.0'',
                      fv_updateAvailable = False \<rparr>,
       cr_packages = [\<lparr> pkg_name = ''http'', pkg_current = JStr ''^1.0.0'',
                        pkg_latest = ''2.0.0'', pkg_updateAvailable = True \<rparr>],
       cr_error = None \<rparr>"

text \<open>A world in which the fetch throws an error with the given message.\<close>

definition unreachable_world :: "string \<Rightarrow> collaborators" where
  "unreachable_world msg =
     \<lparr> getPubspecFromGitHub = (\<lambda>url token. Inl (JsError msg)),
       yaml_parse = (\<lambda>content. Inl (JsError ''nothing to parse'')),
       getLatestPackageVersion = (\<lambda>name. Inl (JsError ''No response from server'')),
       semver_lib = plain_semver \<rparr>"




text \<open>Notification targets that accept the message and generate a spreadsheet of 4096
  bytes; the outcomes of the three phases of the upload are the arguments.\<close>

definition slack_scenario ::
  "js_error + upload_url_response \<Rightarrow> js_error + unit \<Rightarrow> js_error + complete_response
     \<Rightarrow> slack" where
  "slack_scenario url_outcome put_outcome complete_outcome =
     \<lparr> chat_postMessage = (\<lambda>msg. Inr (Some ''1700000000.000100'')),
       generateExcelFile = (\<lambda>results. Inr 4096),
       files_getUploadURLExternal = (\<lambda>filename len. url_outcome),
       axios_put = (\<lambda>url len. put_outcome),
       files_completeUploadExternal = (\<lambda>options. complete_outcome) \<rparr>"

definition response_no_file_id :: upload_url_response where
  "response_no_file_id =
     \<lparr> uu_ok = True, uu_upload_url = Some ''https://files.example/upload'',
       uu_file_id = None, uu_error = None \<rparr>"

definition response_ok :: upload_url_response where
  "response_ok =
     \<lparr> uu_ok = True, uu_upload_url = Some ''https://files.example/upload'',
       uu_file_id = Some ''F0123'', uu_error = None \<rparr>"

definition complete_ok :: complete_response where
  "complete_ok = \<lparr> fin_ok = True, fin_error = None \<rparr>"

definition complete_refused :: complete_response where
  "complete_refused = \<lparr> fin_ok = False, fin_error = Some ''channel_not_found'' \<rparr>"

definition demo_message :: message where
  "demo_message = \<lparr> msg_channel = ''C0123456789A'', msg_hasUpdates = True \<rparr>"

definition demo_options :: complete_options where
  "demo_options =
     \<lparr> cu_file_id = ''F0123'', cu_channel_id = ''C0123456789A'',
       cu_thread_ts = Some ''1700000000.000100'' \<rparr>"

section \<open>Properties of the classifier\<close>

lemma split_ws_not_Nil: "split_ws s \<noteq> []"
  by (induction s rule: split_ws.induct) (auto split: list.splits)

lemma hd_split_ws: "hd (split_ws s) = takeWhile (\<lambda>c. \<not> is_space c) s"
  by (induction s rule: split_ws.induct) (auto simp: split_ws_not_Nil split: list.splits)

lemma baseVersion_eq:
  "baseVersion c = takeWhile (\<lambda>x. \<not> is_space x) (dropWhile is_operator_char c)"
  by (simp add: baseVersion_def strip_operators_def hd_split_ws)

text \<open>
  C1. The base version is the constraint without its leading operator characters and
  white space, cut at the first white space. When \<^verbatim>\<open>semver.valid\<close> accepts both the base
  version and the latest version, \<^verbatim>\<open>isUpdateAvailable\<close> returns, and it returns true
  exactly when \<^verbatim>\<open>semver.gt(latest, base)\<close> is true and
  \<^verbatim>\<open>semver.satisfies(latest, constraint)\<close> is false. This holds for every behaviour of
  the library, throwing included.
\<close>

theorem isUpdateAvailable_iff:
  assumes "truthy_str (semver_valid sv (baseVersion c))"
    and "truthy_str (semver_valid sv l)"
  shows "baseVersion c = takeWhile (\<lambda>x. \<not> is_space x) (dropWhile is_operator_char c)
    \<and> isUpdateAvailable sv c l
        = Inr (semver_gt sv l (baseVersion c) = Inr True \<and> semver_satisfies sv l c = Inr False)"
  using assms
  by (auto simp: baseVersion_eq isUpdateAvailable_def try_catch_def and_then_def
      split: sum.splits)

theorem isUpdateAvailable_iff_witness:
  "truthy_str (semver_valid plain_semver (baseVersion ''^1.2.0''))
   \<and> truthy_str (semver_valid plain_semver ''2.0.0'')
   \<and> baseVersion ''^1.2.0'' = ''1.2.0''
   \<and> semver_gt plain_semver ''2.0.0'' ''1.2.0'' = Inr True
   \<and> semver_satisfies plain_semver ''2.0.0'' ''^1.2.0'' = Inr False
   \<and> isUpdateAvailable plain_semver ''^1.2.0'' ''2.0.0'' = Inr True"
proof -
  have h1: "truthy_str (semver_valid plain_semver (baseVersion ''^1.2.0''))" by code_simp
  have h2: "truthy_str (semver_valid plain_semver ''2.0.0'')" by code_simp
  have b: "baseVersion ''^1.2.0'' = ''1.2.0''" by code_simp
  have g: "semver_gt plain_semver ''2.0.0'' ''1.2.0'' = Inr True" by code_simp
  have s: "semver_satisfies plain_semver ''2.0.0'' ''^1.2.0'' = Inr False" by code_simp
  from isUpdateAvailable_iff [OF h1 h2] h1 h2 b g s show ?thesis by simp
qed

text \<open>
  C2. When the base version and the latest version both parse, with components
  \<open>(a, b, p)\<close> and \<open>(a', b', p')\<close>, \<^verbatim>\<open>getVersionUpdateType\<close> returns major if \<open>a' > a\<close>,
  else minor if \<open>b' > b\<close>, else patch if \<open>p' > p\<close>, else \<^verbatim>\<open>null\<close>: the first test that
  succeeds decides, and the result is one value.
\<close>

theorem getVersionUpdateType_tie_break:
  assumes "components sv (baseVersion c) = Some (a, b, p)"
    and "components sv l = Some (a', b', p')"
  shows "getVersionUpdateType sv c l
      = Inr (if a' > a then Some Major
             else if b' > b then Some Minor
             else if p' > p then Some Patch
             else None)
    \<and> (\<exists>!t. getVersionUpdateType sv c l = Inr t)"
  using assms
  by (auto simp: components_def getVersionUpdateType_def try_catch_def and_then_def
      split: option.splits sum.splits if_splits)

theorem getVersionUpdateType_tie_break_witness:
  "components plain_semver (baseVersion ''^1.2.3'') = Some (1, 2, 3)
   \<and> components plain_semver ''1.4.0'' = Some (1, 4, 0)
   \<and> getVersionUpdateType plain_semver ''^1.2.3'' ''1.4.0'' = Inr (Some Minor)"
proof -
  have h1: "components plain_semver (baseVersion ''^1.2.3'') = Some (1, 2, 3)" by code_simp
  have h2: "components plain_semver ''1.4.0'' = Some (1, 4, 0)" by code_simp
  from getVersionUpdateType_tie_break [OF h1 h2] h1 h2 show ?thesis by simp
qed

text \<open>
  C3. For every pair of strings and every behaviour of the library, both functions
  return and do not throw; when \<^verbatim>\<open>semver.valid\<close> rejects the base version or the latest
  version, \<^verbatim>\<open>isUpdateAvailable\<close> returns false and \<^verbatim>\<open>getVersionUpdateType\<close> returns
  \<^verbatim>\<open>null\<close>.
\<close>

theorem classification_total:
  "(\<exists>u. isUpdateAvailable sv c l = Inr u)
   \<and> (\<exists>t. getVersionUpdateType sv c l = Inr t)
   \<and> (\<not> truthy_str (semver_valid sv (baseVersion c)) \<or> \<not> truthy_str (semver_valid sv l)
        \<longrightarrow> isUpdateAvailable sv c l = Inr False \<and> getVersionUpdateType sv c l = Inr None)"
  by (auto simp: isUpdateAvailable_def getVersionUpdateType_def try_catch_def and_then_def
      truthy_str_def split: option.splits sum.splits if_splits)

theorem classification_total_witness:
  "\<not> truthy_str (semver_valid plain_semver (baseVersion ''>=1.x''))
   \<and> isUpdateAvailable plain_semver ''>=1.x'' ''2.0.0'' = Inr False
   \<and> getVersionUpdateType plain_semver ''>=1.x'' ''2.0.0'' = Inr None"
proof -
  have h: "\<not> truthy_str (semver_valid plain_semver (baseVersion ''>=1.x''))" by code_simp
  from classification_total [of plain_semver "''>=1.x''" "''2.0.0''"] h show ?thesis by simp
qed

section \<open>Properties of the extractors\<close>

text \<open>
  C4. The scan does not reach a runtime key that follows another key of the environment
  block: on the manifest with \<^verbatim>\<open>sdk:\<close> before \<^verbatim>\<open>flutter:\<close> the indented \<^verbatim>\<open>sdk:\<close> line
  matches the key pattern and ends the loop, and the result is \<^verbatim>\<open>null\<close>; with the two
  lines exchanged the pin \<^verbatim>\<open>3.10.0\<close> is found.
\<close>

theorem getFlutterVersionFromPubspec_sdk_first:
  "getFlutterVersionFromPubspec manifest_sdk_first = None
   \<and> getFlutterVersionFromPubspec manifest_flutter_first = Some ''3.10.0''"
  by code_simp

declare show_nat.simps [simp del]

lemma show_nat_not_Nil: "show_nat n \<noteq> []"
  by (subst show_nat.simps) simp

lemma digit_char_inj:
  assumes "a < 10" "b < 10" "char_of (48 + a) = (char_of (48 + b) :: char)"
  shows "a = (b::nat)"
proof -
  from assms(3) have "(48 + a) mod 256 = (48 + b) mod 256"
    by (simp add: char_of_eq_iff take_bit_eq_mod)
  with assms(1,2) show ?thesis by simp
qed

lemma show_nat_inj: "show_nat m = show_nat n \<Longrightarrow> m = n"
proof (induction m arbitrary: n rule: show_nat.induct)
  case (1 m)
  show ?case
  proof (cases "m < 10")
    case True
    hence sm: "show_nat m = [char_of (48 + m)]" by (subst show_nat.simps) simp
    show ?thesis
    proof (cases "n < 10")
      case True
      hence "show_nat n = [char_of (48 + n)]" by (subst show_nat.simps) simp
      with sm "1.prems" \<open>m < 10\<close> True show ?thesis by (auto dest: digit_char_inj)
    next
      case False
      hence "show_nat n = show_nat (n div 10) @ [char_of (48 + n mod 10)]"
        by (subst show_nat.simps) simp
      with sm "1.prems" show_nat_not_Nil [of "n div 10"] show ?thesis by simp
    qed
  next
    case False
    hence sm: "show_nat m = show_nat (m div 10) @ [char_of (48 + m mod 10)]"
      by (subst show_nat.simps) simp
    show ?thesis
    proof (cases "n < 10")
      case True
      hence "show_nat n = [char_of (48 + n)]" by (subst show_nat.simps) simp
      with sm "1.prems" show_nat_not_Nil [of "m div 10"] show ?thesis by simp
    next
      case nf: False
      hence "show_nat n = show_nat (n div 10) @ [char_of (48 + n mod 10)]"
        by (subst show_nat.simps) simp
      with sm "1.prems" have e1: "show_nat (m div 10) = show_nat (n div 10)"
        and e2: "char_of (48 + m mod 10) = (char_of (48 + n mod 10) :: char)" by simp_all
      from "1.IH" [OF False e1] have d: "m div 10 = n div 10" .
      from e2 have "m mod 10 = n mod 10" by (intro digit_char_inj) simp_all
      with d show ?thesis by (metis div_mult_mod_eq)
    qed
  qed
qed

lemma distinct_indexed: "distinct (map fst (indexed xs))"
proof -
  have "map fst (indexed xs) = map show_nat [0..<length xs]"
    by (simp add: indexed_def)
  moreover have "inj_on show_nat (set [0..<length xs])"
    by (rule inj_onI) (rule show_nat_inj)
  ultimately show ?thesis by (simp add: distinct_map)
qed

lemma distinct_object_entries: "wf_object v \<Longrightarrow> distinct (map fst (object_entries v))"
  by (cases v) (simp_all add: wf_object_def distinct_indexed)

lemma names_push_one:
  "map dep_name (push_dependency deps entry)
     = map dep_name deps
       @ filter (\<lambda>n. n \<noteq> ''flutter'' \<and> n \<noteq> ''flutter_test'') [fst entry]"
  by (cases entry) (simp add: push_dependency_def Let_def)

lemma names_push_dependency:
  "map dep_name (foldl push_dependency deps entries)
     = map dep_name deps
       @ filter (\<lambda>n. n \<noteq> ''flutter'' \<and> n \<noteq> ''flutter_test'') (map fst entries)"
proof (induction entries arbitrary: deps)
  case Nil
  show ?case by simp
next
  case (Cons entry entries)
  show ?case
    by (simp add: Cons.IH names_push_one)
qed

lemma names_extractDependencies:
  "map dep_name (extractDependencies pubspec inc)
     = declared_names pubspec ''dependencies''
       @ (if inc then declared_names pubspec ''dev_dependencies'' else [])"
  by (simp add: extractDependencies_def declared_names_def names_push_dependency Let_def)

text \<open>
  C5, as the claim states it, fails: with the flag set, a package named in both maps
  gives two entries of that name.
\<close>

theorem extractDependencies_duplicate_counterexample:
  "map dep_name (extractDependencies pubspec_http_twice True) = [''http'', ''http'']
   \<and> \<not> distinct (map dep_name (extractDependencies pubspec_http_twice True))"
  by code_simp

text \<open>
  C5, amended. The names of the returned entries are the keys of the primary map and,
  when the flag is set, the keys of the development map after them, without the
  runtime's own two names. So for a manifest object (each map has each key once) no two
  entries have the same name exactly when the flag is off or no such name is in both
  maps.
\<close>

theorem extractDependencies_distinct_iff:
  assumes "wf_object (get_prop pubspec ''dependencies'')"
    and "wf_object (get_prop pubspec ''dev_dependencies'')"
  shows "distinct (map dep_name (extractDependencies pubspec inc))
     \<longleftrightarrow> (inc \<longrightarrow> set (declared_names pubspec ''dependencies'')
                    \<inter> set (declared_names pubspec ''dev_dependencies'') = {})"
proof -
  have d1: "distinct (declared_names pubspec ''dependencies'')"
    using assms(1) by (simp add: declared_names_def distinct_object_entries)
  have d2: "distinct (declared_names pubspec ''dev_dependencies'')"
    using assms(2) by (simp add: declared_names_def distinct_object_entries)
  show ?thesis using d1 d2 by (simp add: names_extractDependencies)
qed

theorem extractDependencies_distinct_iff_witness:
  "wf_object (get_prop pubspec_two_maps ''dependencies'')
   \<and> wf_object (get_prop pubspec_two_maps ''dev_dependencies'')
   \<and> set (declared_names pubspec_two_maps ''dependencies'')
       \<inter> set (declared_names pubspec_two_maps ''dev_dependencies'') = {}
   \<and> map dep_name (extractDependencies pubspec_two_maps True) = [''http'', ''lints'']
   \<and> distinct (map dep_name (extractDependencies pubspec_two_maps True))"
proof -
  have w1: "wf_object (get_prop pubspec_two_maps ''dependencies'')" by code_simp
  have w2: "wf_object (get_prop pubspec_two_maps ''dev_dependencies'')" by code_simp
  have n1: "declared_names pubspec_two_maps ''dependencies'' = [''http'']" by code_simp
  have n2: "declared_names pubspec_two_maps ''dev_dependencies'' = [''lints'']" by code_simp
  have e: "map dep_name (extractDependencies pubspec_two_maps True) = [''http'', ''lints'']"
    by code_simp
  from extractDependencies_distinct_iff [OF w1 w2, of True] w1 w2 n1 n2 e
  show ?thesis by simp
qed

section \<open>Properties of the aggregator\<close>

lemma isUpdateAvailable_returns: "\<exists>u. isUpdateAvailable sv c l = Inr u"
  by (auto simp: isUpdateAvailable_def try_catch_def and_then_def split: sum.splits)

lemma isUpdateAvailable_any_returns: "\<exists>u. isUpdateAvailable_any sv v l = Inr u"
  by (cases v) (auto simp: isUpdateAvailable_any_def isUpdateAvailable_returns)

lemma check_dependency_eq:
  "check_dependency co dep =
     (if stringifies (dep_version dep) then Inr (resolved_entry co dep)
      else Inl (JsError ''Cannot convert object to primitive value''))"
proof (cases "stringifies (dep_version dep)")
  case False
  then show ?thesis
    by (simp add: check_dependency_def string_conversion_def try_catch_def and_then_def)
next
  case True
  show ?thesis
  proof (cases "getLatestPackageVersion co (dep_name dep)")
    case (Inl e)
    with True show ?thesis
      by (simp add: check_dependency_def resolved_entry_def string_conversion_def
          try_catch_def and_then_def)
  next
    case (Inr latest)
    obtain u where "isUpdateAvailable_any (semver_lib co) (dep_version dep) latest = Inr u"
      using isUpdateAvailable_any_returns by blast
    with True Inr show ?thesis
      by (simp add: check_dependency_def resolved_entry_def string_conversion_def
          try_catch_def and_then_def)
  qed
qed

lemma check_dependencies_eq:
  "check_dependencies co deps acc =
     (if \<forall>d \<in> set (filter (\<lambda>d. \<not> skipped d) deps). stringifies (dep_version d)
      then Inr (acc @ map (resolved_entry co) (filter (\<lambda>d. \<not> skipped d) deps))
      else Inl (JsError ''Cannot convert object to primitive value''))"
  by (induction deps arbitrary: acc) (auto simp: check_dependency_eq and_then_def)

lemma checkRepository_parsed:
  assumes "getPubspecFromGitHub co (repo_url repository) token = Inr content"
    and "yaml_parse co content = Inr pubspec"
    and "truthy pubspec"
  shows "checkRepository co repository latestFlutter token =
     (if \<forall>d \<in> set (resolved_dependencies pubspec). stringifies (dep_version d)
      then
        \<lparr> cr_repository = repository,
          cr_flutter =
            \<lparr> fv_current =
                (case getFlutterVersionFromPubspec content of
                   None \<Rightarrow> latestFlutter
                 | Some pin \<Rightarrow> if pin = [] then latestFlutter else pin),
              fv_latest = latestFlutter,
              fv_updateAvailable =
                ((case getFlutterVersionFromPubspec content of
                    None \<Rightarrow> latestFlutter
                  | Some pin \<Rightarrow> if pin = [] then latestFlutter else pin) \<noteq> latestFlutter) \<rparr>,
          cr_packages = map (resolved_entry co) (resolved_dependencies pubspec),
          cr_error = None \<rparr>
      else failed_result repository latestFlutter
             ''Cannot convert object to primitive value'')"
proof -
  have "check_dependencies co (extractDependencies pubspec True) [] =
     (if \<forall>d \<in> set (resolved_dependencies pubspec). stringifies (dep_version d)
      then Inr (map (resolved_entry co) (resolved_dependencies pubspec))
      else Inl (JsError ''Cannot convert object to primitive value''))"
    by (auto simp: check_dependencies_eq resolved_dependencies_def)
  with assms show ?thesis
    by (simp add: checkRepository_def and_then_def Let_def failed_result_def message_of_def)
qed

lemma checkRepository_not_parsed:
  assumes "getPubspecFromGitHub co (repo_url repository) token = Inr content"
    and "yaml_parse co content = Inr pubspec"
    and "\<not> truthy pubspec"
  shows "checkRepository co repository latestFlutter token
     = failed_result repository latestFlutter ''Failed to parse pubspec.yaml: result is null''"
  using assms by (simp add: checkRepository_def and_then_def failed_result_def message_of_def)

lemma checkRepository_parse_throws:
  assumes "getPubspecFromGitHub co (repo_url repository) token = Inr content"
    and "yaml_parse co content = Inl e"
  shows "checkRepository co repository latestFlutter token
     = failed_result repository latestFlutter (message_of e)"
  using assms by (simp add: checkRepository_def and_then_def failed_result_def)

lemma checkRepository_fetch_throws:
  assumes "getPubspecFromGitHub co (repo_url repository) token = Inl e"
  shows "checkRepository co repository latestFlutter token
     = failed_result repository latestFlutter (message_of e)"
  using assms by (simp add: checkRepository_def and_then_def failed_result_def)

lemma triple_at_not_Nil: "triple_at s = Some m \<Longrightarrow> m \<noteq> []"
  by (auto simp: triple_at_def digits_dot_def Let_def split: option.splits if_splits list.splits)

lemma match_triple_not_Nil: "match_triple s = Some m \<Longrightarrow> m \<noteq> []"
  by (induction s) (auto split: option.splits dest: triple_at_not_Nil)

lemma scan_lines_not_Nil: "scan_lines b ls = Some m \<Longrightarrow> m \<noteq> []"
  by (induction b ls rule: scan_lines.induct)
     (auto simp: Let_def split: if_splits option.splits dest: match_triple_not_Nil)

lemma pin_not_Nil: "getFlutterVersionFromPubspec content = Some pin \<Longrightarrow> pin \<noteq> []"
  by (simp add: getFlutterVersionFromPubspec_def scan_lines_not_Nil)

text \<open>
  C6, as the claim states it, fails: the fetch succeeds with an empty manifest, the parser
  gives \<^verbatim>\<open>null\<close>, and the result has its error set and the runtime version
  \<^verbatim>\<open>unknown\<close>.
\<close>

theorem checkRepository_empty_manifest_counterexample:
  "getPubspecFromGitHub (world [] (Inr JNull)) (repo_url demo_repo) None = Inr []
   \<and> yaml_parse (world [] (Inr JNull)) [] = Inr JNull
   \<and> cr_error (checkRepository (world [] (Inr JNull)) demo_repo ''3.19.0'' None)
       = Some ''Failed to parse pubspec.yaml: result is null''
   \<and> fv_current (cr_flutter (checkRepository (world [] (Inr JNull)) demo_repo ''3.19.0'' None))
       = ''unknown''"
  by (simp add: world_def checkRepository_def and_then_def message_of_def)

text \<open>
  C6, amended. When the fetch succeeds: if the parser throws, or gives a falsy value (as
  it does for an empty manifest), the check fails for this repository, with the error
  set, the runtime version \<^verbatim>\<open>unknown\<close>, no update flagged and no packages. If the parser
  gives a truthy value and the version of every dependency that is not skipped converts
  to a string (a string version always does), the result has no error, and when the
  manifest pins no runtime version the pin is the latest runtime version and no runtime
  update is flagged. Nothing is said here of a version that does not convert.
\<close>

theorem checkRepository_manifest_outcomes:
  assumes "getPubspecFromGitHub co (repo_url repository) token = Inr content"
  shows "(case yaml_parse co content of
            Inl e \<Rightarrow>
              checkRepository co repository latestFlutter token
                = failed_result repository latestFlutter (message_of e)
          | Inr pubspec \<Rightarrow>
              if truthy pubspec
              then (\<forall>d \<in> set (resolved_dependencies pubspec). stringifies (dep_version d))
                   \<longrightarrow> cr_error (checkRepository co repository latestFlutter token) = None
                        \<and> (getFlutterVersionFromPubspec content = None
                             \<longrightarrow> cr_flutter (checkRepository co repository latestFlutter token)
                                   = \<lparr> fv_current = latestFlutter, fv_latest = latestFlutter,
                                       fv_updateAvailable = False \<rparr>)
              else checkRepository co repository latestFlutter token
                     = failed_result repository latestFlutter
                         ''Failed to parse pubspec.yaml: result is null'')"
proof (cases "yaml_parse co content")
  case (Inl e)
  with assms show ?thesis by (simp add: checkRepository_parse_throws)
next
  case (Inr pubspec)
  show ?thesis
  proof (cases "truthy pubspec")
    case True
    with assms Inr show ?thesis by (simp add: checkRepository_parsed)
  next
    case False
    with assms Inr show ?thesis by (simp add: checkRepository_not_parsed)
  qed
qed

theorem checkRepository_manifest_outcomes_witness:
  "getPubspecFromGitHub (world plain_manifest (Inr plain_pubspec)) (repo_url demo_repo) None
     = Inr plain_manifest
   \<and> yaml_parse (world plain_manifest (Inr plain_pubspec)) plain_manifest = Inr plain_pubspec
   \<and> truthy plain_pubspec
   \<and> resolved_dependencies plain_pubspec = []
   \<and> getFlutterVersionFromPubspec plain_manifest = None
   \<and> cr_error (checkRepository (world plain_manifest (Inr plain_pubspec)) demo_repo
                 ''3.19.0'' None) = None
   \<and> cr_flutter (checkRepository (world plain_manifest (Inr plain_pubspec)) demo_repo
                   ''3.19.0'' None)
       = \<lparr> fv_current = ''3.19.0'', fv_latest = ''3.19.0'', fv_updateAvailable = False \<rparr>
   \<and> getPubspecFromGitHub (world [] (Inl (JsError ''Unexpected token''))) (repo_url demo_repo)
       None = Inr []
   \<and> yaml_parse (world [] (Inl (JsError ''Unexpected token''))) []
       = Inl (JsError ''Unexpected token'')
   \<and> checkRepository (world [] (Inl (JsError ''Unexpected token''))) demo_repo ''3.19.0'' None
       = failed_result demo_repo ''3.19.0'' ''Unexpected token''"
proof -
  have f: "getPubspecFromGitHub (world plain_manifest (Inr plain_pubspec)) (repo_url demo_repo)
             None = Inr plain_manifest"
    by (simp add: world_def)
  have y: "yaml_parse (world plain_manifest (Inr plain_pubspec)) plain_manifest
             = Inr plain_pubspec"
    by (simp add: world_def)
  have t: "truthy plain_pubspec" by (simp add: plain_pubspec_def)
  have d: "resolved_dependencies plain_pubspec = []" by code_simp
  have n: "getFlutterVersionFromPubspec plain_manifest = None" by code_simp
  have f': "getPubspecFromGitHub (world [] (Inl (JsError ''Unexpected token'')))
              (repo_url demo_repo) None = Inr []"
    by (simp add: world_def)
  have y': "yaml_parse (world [] (Inl (JsError ''Unexpected token''))) []
              = Inl (JsError ''Unexpected token'')"
    by (simp add: world_def)
  from checkRepository_manifest_outcomes [OF f, of "''3.19.0''"]
    checkRepository_manifest_outcomes [OF f', of "''3.19.0''"] f y t d n f' y'
  show ?thesis by (simp add: message_of_def)
qed



text \<open>
  C10. In every result of a check that fetched its manifest and has no error set, the
  runtime's current version is the extracted pin, or the latest version when there is
  none, and the update flag is the inequality of the two strings: a pin that differs from
  the latest version in any way, a newer one included, is flagged. (A result with its
  error set carries the placeholder \<^verbatim>\<open>unknown\<close> and no flag.)
\<close>

theorem checkRepository_flutter_flag:
  assumes "getPubspecFromGitHub co (repo_url repository) token = Inr content"
    and "cr_error (checkRepository co repository latestFlutter token) = None"
  shows "fv_latest (cr_flutter (checkRepository co repository latestFlutter token))
           = latestFlutter
    \<and> fv_current (cr_flutter (checkRepository co repository latestFlutter token))
        = (case getFlutterVersionFromPubspec content of
             None \<Rightarrow> latestFlutter
           | Some pin \<Rightarrow> pin)
    \<and> fv_updateAvailable (cr_flutter (checkRepository co repository latestFlutter token))
        = (fv_current (cr_flutter (checkRepository co repository latestFlutter token))
             \<noteq> latestFlutter)"
proof (cases "yaml_parse co content")
  case (Inl e)
  with assms show ?thesis by (simp add: checkRepository_parse_throws failed_result_def)
next
  case (Inr pubspec)
  show ?thesis
  proof (cases "truthy pubspec")
    case False
    with assms Inr show ?thesis by (simp add: checkRepository_not_parsed failed_result_def)
  next
    case True
    show ?thesis
    proof (cases "\<forall>d \<in> set (resolved_dependencies pubspec). stringifies (dep_version d)")
      case False
      with assms Inr True show ?thesis
        by (simp add: checkRepository_parsed failed_result_def)
    next
      case conv: True
      with assms(1) Inr True show ?thesis
        by (auto simp: checkRepository_parsed split: option.splits dest: pin_not_Nil)
    qed
  qed
qed


theorem checkRepository_flutter_flag_witness:
  "getPubspecFromGitHub (world demo_manifest (Inr demo_pubspec)) (repo_url demo_repo) None
     = Inr demo_manifest
   \<and> getFlutterVersionFromPubspec demo_manifest = Some ''3.22.0''
   \<and> cr_error (checkRepository (world demo_manifest (Inr demo_pubspec)) demo_repo
                 ''3.19.0'' None) = None
   \<and> cr_flutter (checkRepository (world demo_manifest (Inr demo_pubspec)) demo_repo
                   ''3.19.0'' None)
       = \<lparr> fv_current = ''3.22.0'', fv_latest = ''3.19.0'', fv_updateAvailable = True \<rparr>
   \<and> cr_error (checkRepository (world demo_manifest (Inr demo_pubspec)) demo_repo
                 ''v3.22.0'' None) = None
   \<and> cr_flutter (checkRepository (world demo_manifest (Inr demo_pubspec)) demo_repo
                   ''v3.22.0'' None)
       = \<lparr> fv_current = ''3.22.0'', fv_latest = ''v3.22.0'', fv_updateAvailable = True \<rparr>"
proof -
  have f: "getPubspecFromGitHub (world demo_manifest (Inr demo_pubspec)) (repo_url demo_repo)
             None = Inr demo_manifest"
    by (simp add: world_def)
  have p: "getFlutterVersionFromPubspec demo_manifest = Some ''3.22.0''" by code_simp
  have e: "cr_error (checkRepository (world demo_manifest (Inr demo_pubspec)) demo_repo
                 ''3.19.0'' None) = None"
    by code_simp
  have e': "cr_error (checkRepository (world demo_manifest (Inr demo_pubspec)) demo_repo
                 ''v3.22.0'' None) = None"
    by code_simp
  from checkRepository_flutter_flag [OF f e] p
  have newer: "cr_flutter (checkRepository (world demo_manifest (Inr demo_pubspec)) demo_repo
                   ''3.19.0'' None)
       = \<lparr> fv_current = ''3.22.0'', fv_latest = ''3.19.0'', fv_updateAvailable = True \<rparr>"
    by (cases "cr_flutter (checkRepository (world demo_manifest (Inr demo_pubspec))
      demo_repo ''3.19.0'' None)") simp
  from checkRepository_flutter_flag [OF f e'] p
  have written: "cr_flutter (checkRepository (world demo_manifest (Inr demo_pubspec)) demo_repo
                   ''v3.22.0'' None)
       = \<lparr> fv_current = ''3.22.0'', fv_latest = ''v3.22.0'', fv_updateAvailable = True \<rparr>"
    by (cases "cr_flutter (checkRepository (world demo_manifest (Inr demo_pubspec))
      demo_repo ''v3.22.0'' None)") simp
  from f p e e' newer written show ?thesis by simp
qed

section \<open>Properties of the report and of the upload\<close>

lemma foldl_snoc_map: "foldl (\<lambda>rows x. rows @ [f x]) acc xs = acc @ map f xs"
  by (induction xs arbitrary: acc) simp_all

lemma createSummarySheet_map: "createSummarySheet results = map summary_row results"
  by (simp add: createSummarySheet_def foldl_snoc_map)

text \<open>
  The status of a row: error for a non-empty error message, else needs-update when the
  runtime or a package has its update flag set, else up-to-date.
\<close>

lemma summary_status:
  "sum_status (summary_row result)
     = (if \<exists>m. cr_error result = Some m \<and> m \<noteq> [] then StatusError
        else if fv_updateAvailable (cr_flutter result)
                \<or> length (filter pkg_updateAvailable (cr_packages result)) > 0
        then StatusNeedsUpdate
        else StatusUpToDate)"
  by (auto simp: summary_row_def truthy_str_def Let_def split: option.splits)

text \<open>
  C9. The sheet tests the error field for truthiness, so an error that is the empty
  string is not seen. When the fetch throws an error with an empty message,
  \<^verbatim>\<open>checkRepository\<close> stores that message in the error field, and the summary sheet
  gives the failed repository the row of a successful check: current version
  \<^verbatim>\<open>unknown\<close>, no packages, status up-to-date.
\<close>

theorem createSummarySheet_empty_message:
  "checkRepository (unreachable_world []) demo_repo ''3.19.0'' None = silent_failure
   \<and> cr_error silent_failure = Some []
   \<and> createSummarySheet [silent_failure]
       = [\<lparr> sum_repository = ''app'',
            sum_flutterCurrent = CellText ''unknown'',
            sum_flutterLatest = CellText ''3.19.0'',
            sum_flutterUpdate = CellLabel StatusUpToDate,
            sum_outdatedCount = CellNumber 0,
            sum_totalCount = CellNumber 0,
            sum_status = StatusUpToDate \<rparr>]"
  by (simp add: unreachable_world_def checkRepository_def and_then_def message_of_def
      silent_failure_def failed_result_def createSummarySheet_def summary_row_def
      truthy_str_def demo_repo_def)


lemma upload_no_post: "PostMessage m \<notin> set (fst (upload api channel ts results stamp))"
  by (auto simp: upload_def Let_def split: sum.splits)

lemma send_posted:
  assumes "compose_blocks results = Inr ()"
    and "chat_postMessage api \<lparr> msg_channel = channel, msg_hasUpdates = hasUpdates results \<rparr>
           = Inr ts"
  shows "sendSlackNotification api channel results stamp =
     (PostMessage \<lparr> msg_channel = channel, msg_hasUpdates = hasUpdates results \<rparr>
        # fst (upload api channel ts results stamp)
        @ (case snd (upload api channel ts results stamp) of
             Inl e \<Rightarrow> [ConsoleError (message_of e)]
           | Inr u \<Rightarrow> []),
      Inr ())"
  using assms
  by (simp add: sendSlackNotification_def Let_def split: prod.splits sum.splits)

text \<open>
  C8. Once the blocks are built and the message is posted, \<^verbatim>\<open>sendSlackNotification\<close>
  returns and does not throw, and the message is its first call and the only one that
  posts. For each way the upload can fail the calls are given in full: the spreadsheet
  generation throws; the request phase throws, or answers unsuccessfully or without an
  upload URL or a file id; the transfer throws; the completion phase throws, or answers
  unsuccessfully. In each case the calls stop at that phase and are followed by one line
  on the error console with the message of the failure. The last conjunct also gives the
  calls of an upload that succeeds, which logs nothing.
\<close>

theorem upload_failure_contained:
  assumes "compose_blocks results = Inr ()"
    and "chat_postMessage api \<lparr> msg_channel = channel, msg_hasUpdates = hasUpdates results \<rparr>
           = Inr ts"
  shows "snd (sendSlackNotification api channel results stamp) = Inr ()
    \<and> (\<exists>calls. fst (sendSlackNotification api channel results stamp)
                  = PostMessage \<lparr> msg_channel = channel, msg_hasUpdates = hasUpdates results \<rparr>
                    # calls
               \<and> (\<forall>m. PostMessage m \<notin> set calls))
    \<and> (\<forall>e. generateExcelFile api results = Inl e
          \<longrightarrow> sendSlackNotification api channel results stamp
                = ([PostMessage \<lparr> msg_channel = channel, msg_hasUpdates = hasUpdates results \<rparr>,
                    ConsoleError (message_of e)],
                   Inr ()))
    \<and> (\<forall>len e.
          generateExcelFile api results = Inr len
          \<and> files_getUploadURLExternal api (upload_filename stamp) len = Inl e
          \<longrightarrow> sendSlackNotification api channel results stamp
                = ([PostMessage \<lparr> msg_channel = channel, msg_hasUpdates = hasUpdates results \<rparr>,
                    GetUploadURLExternal (upload_filename stamp) len,
                    ConsoleError (message_of e)],
                   Inr ()))
    \<and> (\<forall>len r.
          generateExcelFile api results = Inr len
          \<and> files_getUploadURLExternal api (upload_filename stamp) len = Inr r
          \<and> (\<not> uu_ok r \<or> \<not> truthy_str (uu_upload_url r) \<or> \<not> truthy_str (uu_file_id r))
          \<longrightarrow> sendSlackNotification api channel results stamp
                = ([PostMessage \<lparr> msg_channel = channel, msg_hasUpdates = hasUpdates results \<rparr>,
                    GetUploadURLExternal (upload_filename stamp) len,
                    ConsoleError (or_else (uu_error r) ''Failed to get upload URL'')],
                   Inr ()))
    \<and> (\<forall>len r url fid e.
          generateExcelFile api results = Inr len
          \<and> files_getUploadURLExternal api (upload_filename stamp) len = Inr r
          \<and> uu_ok r \<and> uu_upload_url r = Some url \<and> url \<noteq> []
          \<and> uu_file_id r = Some fid \<and> fid \<noteq> []
          \<and> axios_put api url len = Inl e
          \<longrightarrow> sendSlackNotification api channel results stamp
                = ([PostMessage \<lparr> msg_channel = channel, msg_hasUpdates = hasUpdates results \<rparr>,
                    GetUploadURLExternal (upload_filename stamp) len,
                    Put url len,
                    ConsoleError (message_of e)],
                   Inr ()))
    \<and> (\<forall>len r url fid e.
          generateExcelFile api results = Inr len
          \<and> files_getUploadURLExternal api (upload_filename stamp) len = Inr r
          \<and> uu_ok r \<and> uu_upload_url r = Some url \<and> url \<noteq> []
          \<and> uu_file_id r = Some fid \<and> fid \<noteq> []
          \<and> axios_put api url len = Inr ()
          \<and> files_completeUploadExternal api
                \<lparr> cu_file_id = fid, cu_channel_id = channel,
                  cu_thread_ts = (if truthy_str ts then ts else None) \<rparr> = Inl e
          \<longrightarrow> sendSlackNotification api channel results stamp
                = ([PostMessage \<lparr> msg_channel = channel, msg_hasUpdates = hasUpdates results \<rparr>,
                    GetUploadURLExternal (upload_filename stamp) len,
                    Put url len,
                    CompleteUploadExternal
                      \<lparr> cu_file_id = fid, cu_channel_id = channel,
                        cu_thread_ts = (if truthy_str ts then ts else None) \<rparr>,
                    ConsoleError (message_of e)],
                   Inr ()))
    \<and> (\<forall>len r url fid d.
          generateExcelFile api results = Inr len
          \<and> files_getUploadURLExternal api (upload_filename stamp) len = Inr r
          \<and> uu_ok r \<and> uu_upload_url r = Some url \<and> url \<noteq> []
          \<and> uu_file_id r = Some fid \<and> fid \<noteq> []
          \<and> axios_put api url len = Inr ()
          \<and> files_completeUploadExternal api
                \<lparr> cu_file_id = fid, cu_channel_id = channel,
                  cu_thread_ts = (if truthy_str ts then ts else None) \<rparr> = Inr d
          \<longrightarrow> sendSlackNotification api channel results stamp
                = ([PostMessage \<lparr> msg_channel = channel, msg_hasUpdates = hasUpdates results \<rparr>,
                    GetUploadURLExternal (upload_filename stamp) len,
                    Put url len,
                    CompleteUploadExternal
                      \<lparr> cu_file_id = fid, cu_channel_id = channel,
                        cu_thread_ts = (if truthy_str ts then ts else None) \<rparr>]
                   @ (if fin_ok d then []
                      else [ConsoleError (or_else (fin_error d) ''Failed to complete upload'')]),
                   Inr ()))"
proof -
  note sent = send_posted [OF assms, of stamp]
  have ret: "snd (sendSlackNotification api channel results stamp) = Inr ()"
    by (simp add: sent)
  have once: "\<exists>calls. fst (sendSlackNotification api channel results stamp)
                  = PostMessage \<lparr> msg_channel = channel, msg_hasUpdates = hasUpdates results \<rparr>
                    # calls
               \<and> (\<forall>m. PostMessage m \<notin> set calls)"
    using upload_no_post [of _ api channel ts results stamp]
    by (auto simp: sent split: sum.splits)
  have excel: "\<forall>e. generateExcelFile api results = Inl e
          \<longrightarrow> sendSlackNotification api channel results stamp
                = ([PostMessage \<lparr> msg_channel = channel, msg_hasUpdates = hasUpdates results \<rparr>,
                    ConsoleError (message_of e)],
                   Inr ())"
    by (simp add: sent upload_def)
  have request_throws: "\<forall>len e.
          generateExcelFile api results = Inr len
          \<and> files_getUploadURLExternal api (upload_filename stamp) len = Inl e
          \<longrightarrow> sendSlackNotification api channel results stamp
                = ([PostMessage \<lparr> msg_channel = channel, msg_hasUpdates = hasUpdates results \<rparr>,
                    GetUploadURLExternal (upload_filename stamp) len,
                    ConsoleError (message_of e)],
                   Inr ())"
    by (simp add: sent upload_def Let_def)
  have request: "\<forall>len r.
          generateExcelFile api results = Inr len
          \<and> files_getUploadURLExternal api (upload_filename stamp) len = Inr r
          \<and> (\<not> uu_ok r \<or> \<not> truthy_str (uu_upload_url r) \<or> \<not> truthy_str (uu_file_id r))
          \<longrightarrow> sendSlackNotification api channel results stamp
                = ([PostMessage \<lparr> msg_channel = channel, msg_hasUpdates = hasUpdates results \<rparr>,
                    GetUploadURLExternal (upload_filename stamp) len,
                    ConsoleError (or_else (uu_error r) ''Failed to get upload URL'')],
                   Inr ())"
    by (auto simp: sent upload_def Let_def message_of_def)
  have transfer: "\<forall>len r url fid e.
          generateExcelFile api results = Inr len
          \<and> files_getUploadURLExternal api (upload_filename stamp) len = Inr r
          \<and> uu_ok r \<and> uu_upload_url r = Some url \<and> url \<noteq> []
          \<and> uu_file_id r = Some fid \<and> fid \<noteq> []
          \<and> axios_put api url len = Inl e
          \<longrightarrow> sendSlackNotification api channel results stamp
                = ([PostMessage \<lparr> msg_channel = channel, msg_hasUpdates = hasUpdates results \<rparr>,
                    GetUploadURLExternal (upload_filename stamp) len,
                    Put url len,
                    ConsoleError (message_of e)],
                   Inr ())"
    by (auto simp: sent upload_def Let_def truthy_str_def or_else_def)
  have completion_throws: "\<forall>len r url fid e.
          generateExcelFile api results = Inr len
          \<and> files_getUploadURLExternal api (upload_filename stamp) len = Inr r
          \<and> uu_ok r \<and> uu_upload_url r = Some url \<and> url \<noteq> []
          \<and> uu_file_id r = Some fid \<and> fid \<noteq> []
          \<and> axios_put api url len = Inr ()
          \<and> files_completeUploadExternal api
                \<lparr> cu_file_id = fid, cu_channel_id = channel,
                  cu_thread_ts = (if truthy_str ts then ts else None) \<rparr> = Inl e
          \<longrightarrow> sendSlackNotification api channel results stamp
                = ([PostMessage \<lparr> msg_channel = channel, msg_hasUpdates = hasUpdates results \<rparr>,
                    GetUploadURLExternal (upload_filename stamp) len,
                    Put url len,
                    CompleteUploadExternal
                      \<lparr> cu_file_id = fid, cu_channel_id = channel,
                        cu_thread_ts = (if truthy_str ts then ts else None) \<rparr>,
                    ConsoleError (message_of e)],
                   Inr ())"
    by (auto simp: sent upload_def Let_def truthy_str_def or_else_def)
  have completion: "\<forall>len r url fid d.
          generateExcelFile api results = Inr len
          \<and> files_getUploadURLExternal api (upload_filename stamp) len = Inr r
          \<and> uu_ok r \<and> uu_upload_url r = Some url \<and> url \<noteq> []
          \<and> uu_file_id r = Some fid \<and> fid \<noteq> []
          \<and> axios_put api url len = Inr ()
          \<and> files_completeUploadExternal api
                \<lparr> cu_file_id = fid, cu_channel_id = channel,
                  cu_thread_ts = (if truthy_str ts then ts else None) \<rparr> = Inr d
          \<longrightarrow> sendSlackNotification api channel results stamp
                = ([PostMessage \<lparr> msg_channel = channel, msg_hasUpdates = hasUpdates results \<rparr>,
                    GetUploadURLExternal (upload_filename stamp) len,
                    Put url len,
                    CompleteUploadExternal
                      \<lparr> cu_file_id = fid, cu_channel_id = channel,
                        cu_thread_ts = (if truthy_str ts then ts else None) \<rparr>]
                   @ (if fin_ok d then []
                      else [ConsoleError (or_else (fin_error d) ''Failed to complete upload'')]),
                   Inr ())"
    by (auto simp: sent upload_def Let_def truthy_str_def or_else_def message_of_def)
  from ret once excel request_throws request transfer completion_throws completion
  show ?thesis by blast
qed


lemma hasUpdates_outdated: "hasUpdates [outdated_result] = True"
  by (simp add: hasUpdates_def outdated_result_def truthy_str_def)

lemma compose_blocks_outdated: "compose_blocks [outdated_result] = Inr ()"
  by (simp add: compose_blocks_def block_conversions_def outdated_result_def truthy_str_def
      string_conversion_def and_then_def)

theorem upload_failure_contained_witness:
  "sendSlackNotification
       (slack_scenario (Inl (JsError ''not_authed'')) (Inr ()) (Inr complete_ok))
       ''C0123456789A'' [outdated_result] ''T''
     = ([PostMessage demo_message,
         GetUploadURLExternal ''flutter-dependency-check-T.xlsx'' 4096,
         ConsoleError ''not_authed''],
        Inr ())
   \<and> sendSlackNotification
       (slack_scenario (Inr response_no_file_id) (Inr ()) (Inr complete_ok))
       ''C0123456789A'' [outdated_result] ''T''
     = ([PostMessage demo_message,
         GetUploadURLExternal ''flutter-dependency-check-T.xlsx'' 4096,
         ConsoleError ''Failed to get upload URL''],
        Inr ())
   \<and> sendSlackNotification
       (slack_scenario (Inr response_ok) (Inl (JsError ''Network Error'')) (Inr complete_ok))
       ''C0123456789A'' [outdated_result] ''T''
     = ([PostMessage demo_message,
         GetUploadURLExternal ''flutter-dependency-check-T.xlsx'' 4096,
         Put ''https://files.example/upload'' 4096,
         ConsoleError ''Network Error''],
        Inr ())
   \<and> sendSlackNotification
       (slack_scenario (Inr response_ok) (Inr ()) (Inl (JsError ''ratelimited'')))
       ''C0123456789A'' [outdated_result] ''T''
     = ([PostMessage demo_message,
         GetUploadURLExternal ''flutter-dependency-check-T.xlsx'' 4096,
         Put ''https://files.example/upload'' 4096,
         CompleteUploadExternal demo_options,
         ConsoleError ''ratelimited''],
        Inr ())
   \<and> sendSlackNotification
       (slack_scenario (Inr response_ok) (Inr ()) (Inr complete_refused))
       ''C0123456789A'' [outdated_result] ''T''
     = ([PostMessage demo_message,
         GetUploadURLExternal ''flutter-dependency-check-T.xlsx'' 4096,
         Put ''https://files.example/upload'' 4096,
         CompleteUploadExternal demo_options,
         ConsoleError ''channel_not_found''],
        Inr ())"
proof -
  have p: "chat_postMessage (slack_scenario a b c)
       \<lparr> msg_channel = ''C0123456789A'', msg_hasUpdates = hasUpdates [outdated_result] \<rparr>
     = Inr (Some ''1700000000.000100'')" for a b c
    by (simp add: slack_scenario_def)
  note contained = upload_failure_contained [OF compose_blocks_outdated p, where stamp = "''T''"]
  from contained [of "Inl (JsError ''not_authed'')" "Inr ()" "Inr complete_ok"]
  have one: "sendSlackNotification
       (slack_scenario (Inl (JsError ''not_authed'')) (Inr ()) (Inr complete_ok))
       ''C0123456789A'' [outdated_result] ''T''
     = ([PostMessage demo_message,
         GetUploadURLExternal ''flutter-dependency-check-T.xlsx'' 4096,
         ConsoleError ''not_authed''],
        Inr ())"
    by (simp add: slack_scenario_def upload_filename_def hasUpdates_outdated message_of_def
        demo_message_def)
  from contained [of "Inr response_no_file_id" "Inr ()" "Inr complete_ok"]
  have two: "sendSlackNotification
       (slack_scenario (Inr response_no_file_id) (Inr ()) (Inr complete_ok))
       ''C0123456789A'' [outdated_result] ''T''
     = ([PostMessage demo_message,
         GetUploadURLExternal ''flutter-dependency-check-T.xlsx'' 4096,
         ConsoleError ''Failed to get upload URL''],
        Inr ())"
    by (simp add: slack_scenario_def upload_filename_def hasUpdates_outdated message_of_def
        demo_message_def response_no_file_id_def truthy_str_def or_else_def)
  from contained [of "Inr response_ok" "Inl (JsError ''Network Error'')" "Inr complete_ok"]
  have three: "sendSlackNotification
       (slack_scenario (Inr response_ok) (Inl (JsError ''Network Error'')) (Inr complete_ok))
       ''C0123456789A'' [outdated_result] ''T''
     = ([PostMessage demo_message,
         GetUploadURLExternal ''flutter-dependency-check-T.xlsx'' 4096,
         Put ''https://files.example/upload'' 4096,
         ConsoleError ''Network Error''],
        Inr ())"
    by (simp add: slack_scenario_def upload_filename_def hasUpdates_outdated message_of_def
        demo_message_def response_ok_def)
  from contained [of "Inr response_ok" "Inr ()" "Inl (JsError ''ratelimited'')"]
  have four: "sendSlackNotification
       (slack_scenario (Inr response_ok) (Inr ()) (Inl (JsError ''ratelimited'')))
       ''C0123456789A'' [outdated_result] ''T''
     = ([PostMessage demo_message,
         GetUploadURLExternal ''flutter-dependency-check-T.xlsx'' 4096,
         Put ''https://files.example/upload'' 4096,
         CompleteUploadExternal demo_options,
         ConsoleError ''ratelimited''],
        Inr ())"
    by (simp add: slack_scenario_def upload_filename_def hasUpdates_outdated message_of_def
        demo_message_def demo_options_def response_ok_def truthy_str_def)
  from contained [of "Inr response_ok" "Inr ()" "Inr complete_refused"]
  have five: "sendSlackNotification
       (slack_scenario (Inr response_ok) (Inr ()) (Inr complete_refused))
       ''C0123456789A'' [outdated_result] ''T''
     = ([PostMessage demo_message,
         GetUploadURLExternal ''flutter-dependency-check-T.xlsx'' 4096,
         Put ''https://files.example/upload'' 4096,
         CompleteUploadExternal demo_options,
         ConsoleError ''channel_not_found''],
        Inr ())"
    by (simp add: slack_scenario_def upload_filename_def hasUpdates_outdated message_of_def
        demo_message_def demo_options_def response_ok_def complete_refused_def truthy_str_def
        or_else_def)
  from one two three four five show ?thesis by simp
qed

end
